theory Spec2Isabelle
  imports Main "HOL-Library.Word"
begin

section \<open>Shared data: bytes, durations, errors\<close>

text \<open>
  A Go \<^verbatim>\<open>[]byte\<close> is a list of 8-bit words. A \<^verbatim>\<open>time.Duration\<close> is a signed 64-bit
  count of nanoseconds, kept here as an \<open>int\<close> with the wrap-around of its arithmetic
  written out (\<open>wrap64\<close>). A \<^verbatim>\<open>time.Time\<close> is a reading of the clock in nanoseconds.
  Go's \<^verbatim>\<open>int\<close> (64 bit) is an \<open>int\<close>; an index is always checked against the length of
  its slice before it is used, as the Go runtime does.
\<close>

type_synonym byte = "8 word"
type_synonym bytes = "byte list"

datatype error =
    FileOpenFailure string string
  | DecodeFailure string string
  | NoFrames string
  | GifEncodeFailure nat
  | ImageEncodeFailure
  | UnsupportedFormat string string
  | DecoderUnavailable
  | SpawnFailure string
  | DecoderStreamClosed string error
  | EOF
  | AlreadyRunning
  | OpeningMedia error
  | ClosingMediaSource error
  | OSError string
  | Panic string

definition wrap64 :: "int \<Rightarrow> int" where
  "wrap64 x = signed_take_bit 63 x"

definition maxDuration :: int where
  "maxDuration = 9223372036854775807"

definition minDuration :: int where
  "minDuration = - 9223372036854775808"

text \<open>\<^verbatim>\<open>time.Since(t)\<close> is \<^verbatim>\<open>time.Now().Sub(t)\<close>; \<^verbatim>\<open>Sub\<close> saturates at the ends of the
  \<^verbatim>\<open>Duration\<close> range. The clock reading is passed in.\<close>

definition time_Since :: "int \<Rightarrow> int \<Rightarrow> int" where
  "time_Since now t = max minDuration (min maxDuration (now - t))"

text \<open>Go's \<^verbatim>\<open>%\<close> truncates towards zero: the result has the sign of the dividend.\<close>

definition go_rem :: "int \<Rightarrow> int \<Rightarrow> int" where
  "go_rem a b = sgn a * (\<bar>a\<bar> mod \<bar>b\<bar>)"

section \<open>The environment of the constructors\<close>

text \<open>
  The constructors call the file system, the image codecs, the clock and the process
  launcher. None of these is code of the repository; each is a field of the environment.
  \<open>os_Open\<close> gives the content of the file at a path, or \<open>None\<close> when the open fails.
  \<open>image_Decode\<close>, \<open>gif_DecodeAll\<close> and \<open>jpeg_Encode\<close> are the codecs, \<open>None\<close> when they
  report an error. \<open>perFrame r\<close> is what the platform computes for
  \<^verbatim>\<open>time.Duration(float64(time.Second) / float64(r))\<close>. \<open>exec_LookPath\<close> tells whether an
  executable resolves, \<open>cmd_StdoutPipe\<close> whether the pipe of the command can be created, and
  \<open>cmd_Start\<close> is the result of starting the command with the given arguments: \<open>None\<close> when
  it fails, or the process id and the chunks its standard output will deliver, in order.
\<close>

text \<open>The fields \<^verbatim>\<open>Image\<close> and \<^verbatim>\<open>Delay\<close> of \<^verbatim>\<open>gif.GIF\<close>.\<close>

record 'img gifData =
  gif_Image :: "'img list"
  gif_Delay :: "int list"

record 'img env =
  os_Open :: "string \<Rightarrow> bytes option"
  image_Decode :: "bytes \<Rightarrow> 'img option"
  gif_DecodeAll :: "bytes \<Rightarrow> 'img gifData option"
  jpeg_Encode :: "'img \<Rightarrow> nat \<Rightarrow> bytes option"
  time_Now :: int
  perFrame :: "int \<Rightarrow> int"
  exec_LookPath :: "string \<Rightarrow> bool"
  cmd_StdoutPipe :: bool
  cmd_Start :: "string list \<Rightarrow> (nat \<times> bytes list) option"

section \<open>imageSource\<close>

record imageSource =
  frame :: bytes

definition newImageSource :: "'img env \<Rightarrow> string \<Rightarrow> error + imageSource" where
  "newImageSource e p =
     (case os_Open e p of
        None \<Rightarrow> Inl (FileOpenFailure ''opening image'' p)
      | Some f \<Rightarrow>
          (case image_Decode e f of
             None \<Rightarrow> Inl (DecodeFailure ''decoding image'' p)
           | Some img \<Rightarrow>
               (case jpeg_Encode e img 92 of
                  None \<Rightarrow> Inl ImageEncodeFailure
                | Some buf \<Rightarrow> Inr \<lparr>frame = buf\<rparr>)))"

text \<open>A method returns its result and the receiver's state after the call.\<close>

definition imageSource_NextFrame :: "imageSource \<Rightarrow> (error + bytes) \<times> imageSource" where
  "imageSource_NextFrame s = (Inr (frame s), s)"

definition imageSource_Close :: "imageSource \<Rightarrow> error option \<times> imageSource" where
  "imageSource_Close s = (None, s)"

text \<open>The source after \<open>n\<close> calls of \<^verbatim>\<open>NextFrame\<close>.\<close>

fun imageSource_calls :: "nat \<Rightarrow> imageSource \<Rightarrow> imageSource" where
  "imageSource_calls 0 s = s"
| "imageSource_calls (Suc n) s = imageSource_calls n (snd (imageSource_NextFrame s))"

section \<open>gifSource\<close>

record gifFrame =
  data :: bytes
  delay :: int

record gifSource =
  frames :: "gifFrame list"
  index :: int
  lastAt :: int

text \<open>The loop of \<^verbatim>\<open>newGIFSource\<close> over \<^verbatim>\<open>g.Image\<close>: \<open>i\<close> is the loop index and \<open>acc\<close> the
  slice \<^verbatim>\<open>frames\<close> built so far. \<^verbatim>\<open>g.Delay[i]\<close> panics when \<^verbatim>\<open>g.Delay\<close> is too short.\<close>

fun encodeFrames ::
  "('img \<Rightarrow> nat \<Rightarrow> bytes option) \<Rightarrow> int \<Rightarrow> int list \<Rightarrow> nat \<Rightarrow> 'img list \<Rightarrow> gifFrame list
     \<Rightarrow> error + gifFrame list" where
  "encodeFrames enc fallbackDelay dl i [] acc = Inr acc"
| "encodeFrames enc fallbackDelay dl i (img # rest) acc =
     (case enc img 90 of
        None \<Rightarrow> Inl (GifEncodeFailure i)
      | Some buf \<Rightarrow>
          if length dl \<le> i then Inl (Panic ''index out of range'')
          else
            let d0 = wrap64 (wrap64 (dl ! i * 10) * 1000000);
                d = (if d0 = 0 then fallbackDelay else d0)
            in encodeFrames enc fallbackDelay dl (Suc i) rest (acc @ [\<lparr>data = buf, delay = d\<rparr>]))"

definition newGIFSource :: "'img env \<Rightarrow> string \<Rightarrow> int \<Rightarrow> error + gifSource" where
  "newGIFSource e p rate =
     (case os_Open e p of
        None \<Rightarrow> Inl (FileOpenFailure ''opening GIF'' p)
      | Some f \<Rightarrow>
          (case gif_DecodeAll e f of
             None \<Rightarrow> Inl (DecodeFailure ''decoding GIF'' p)
           | Some g \<Rightarrow>
               if length (gif_Image g) = 0 then Inl (NoFrames p)
               else
                 (case encodeFrames (jpeg_Encode e) (perFrame e rate) (gif_Delay g) 0 (gif_Image g) [] of
                    Inl err \<Rightarrow> Inl err
                  | Inr fs \<Rightarrow> Inr \<lparr>frames = fs, index = 0, lastAt = time_Now e\<rparr>)))"

text \<open>
  \<^verbatim>\<open>NextFrame\<close> reads the clock twice: \<open>now1\<close> is the reading inside \<^verbatim>\<open>time.Since\<close>,
  \<open>now2\<close> the one stored in \<^verbatim>\<open>lastAt\<close>. \<^verbatim>\<open>s.frames[s.index]\<close> panics out of range.
  The local \<^verbatim>\<open>frame\<close> is bound before the index moves and its \<^verbatim>\<open>data\<close> is what is returned.
\<close>

definition gifSource_NextFrame :: "int \<Rightarrow> int \<Rightarrow> gifSource \<Rightarrow> (error + bytes) \<times> gifSource" where
  "gifSource_NextFrame now1 now2 s =
     (if index s < 0 \<or> int (length (frames s)) \<le> index s
      then (Inl (Panic ''index out of range''), s)
      else
        let fr = frames s ! nat (index s);
            s' = (if delay fr \<le> time_Since now1 (lastAt s)
                  then s\<lparr>index := go_rem (index s + 1) (int (length (frames s))), lastAt := now2\<rparr>
                  else s)
        in (Inr (data fr), s'))"

definition gifSource_Close :: "gifSource \<Rightarrow> error option \<times> gifSource" where
  "gifSource_Close s = (None, s)"

text \<open>The source after a run of method calls; a \<^verbatim>\<open>NextFrame\<close> call comes with its two
  clock readings.\<close>

datatype gifCall = NextFrameAt int int | CloseCall

fun gifSource_run :: "gifCall list \<Rightarrow> gifSource \<Rightarrow> gifSource" where
  "gifSource_run [] s = s"
| "gifSource_run (NextFrameAt now1 now2 # cs) s =
     gifSource_run cs (snd (gifSource_NextFrame now1 now2 s))"
| "gifSource_run (CloseCall # cs) s = gifSource_run cs (snd (gifSource_Close s))"

text \<open>The invariant of the data model: at least one frame and a valid index.\<close>

definition gif_inv :: "gifSource \<Rightarrow> bool" where
  "gif_inv s \<longleftrightarrow> 1 \<le> length (frames s) \<and> 0 \<le> index s \<and> index s < int (length (frames s))"

section \<open>videoSource\<close>

text \<open>
  The standard output of the decoder is a pipe: \<open>chunks\<close> holds what the process writes, in
  the pieces in which the reads will find it, and \<open>closed\<close> tells whether the handle was
  closed. A \<^verbatim>\<open>Read\<close> into a buffer of \<open>n \<ge> 1\<close> bytes gives at most \<open>n\<close> bytes of the first
  piece and leaves the rest of it in the pipe; it gives either at least one byte and no
  error, or no byte and an error, as a read of an \<^verbatim>\<open>os.File\<close> does.
\<close>

record readCloser =
  chunks :: "bytes list"
  closed :: bool

datatype readResult = ReadData byte bytes | ReadErr error

fun pipe_Read :: "nat \<Rightarrow> bytes list \<Rightarrow> readResult \<times> bytes list" where
  "pipe_Read n [] = (ReadErr EOF, [])"
| "pipe_Read n ([] # cs) = pipe_Read n cs"
| "pipe_Read n ((b # t) # cs) =
     (ReadData b (take (n - 1) t), (if length t \<le> n - 1 then cs else drop (n - 1) t # cs))"

definition stdout_Read :: "nat \<Rightarrow> readCloser \<Rightarrow> readResult \<times> readCloser" where
  "stdout_Read n r =
     (if closed r then (ReadErr (OSError ''file already closed''), r)
      else case pipe_Read n (chunks r) of (res, cs) \<Rightarrow> (res, r\<lparr>chunks := cs\<rparr>))"

definition stdout_Close :: "readCloser \<Rightarrow> error option \<times> readCloser" where
  "stdout_Close r =
     (if closed r then (Some (OSError ''file already closed''), r) else (None, r\<lparr>closed := True\<rparr>))"

text \<open>\<^verbatim>\<open>readByte\<close> is \<^verbatim>\<open>io.ReadFull\<close> on a buffer of one byte.\<close>

definition readByte :: "readCloser \<Rightarrow> (error + byte) \<times> readCloser" where
  "readByte r =
     (case stdout_Read 1 r of
        (ReadErr err, r') \<Rightarrow> (Inl err, r')
      | (ReadData b _, r') \<Rightarrow> (Inr b, r'))"

text \<open>\<^verbatim>\<open>bytes.Index\<close>: the index of the first occurrence of \<open>sep\<close>, \<open>None\<close> for Go's \<open>-1\<close>.\<close>

fun bytes_Index :: "bytes \<Rightarrow> bytes \<Rightarrow> nat option" where
  "bytes_Index [] sep = (if sep = [] then Some 0 else None)"
| "bytes_Index (b # t) sep =
     (if take (length sep) (b # t) = sep then Some 0
      else map_option Suc (bytes_Index t sep))"

definition pipe_size :: "bytes list \<Rightarrow> nat" where
  "pipe_size cs = sum_list (map (\<lambda>c. Suc (length c)) cs)"

lemma pipe_Read_decreases:
  "pipe_Read n cs = (ReadData b t, cs') \<Longrightarrow> pipe_size cs' < pipe_size cs"
  by (induction n cs rule: pipe_Read.induct) (auto simp: pipe_size_def split: if_splits)

lemma stdout_Read_decreases:
  "(ReadData b t, r') = stdout_Read n r \<Longrightarrow> pipe_size (chunks r') < pipe_size (chunks r)"
  by (auto simp: stdout_Read_def split: if_splits prod.splits dest: pipe_Read_decreases)

lemma readByte_decreases:
  "(Inr b, r') = readByte r \<Longrightarrow> pipe_size (chunks r') < pipe_size (chunks r)"
  by (auto simp: readByte_def split: prod.splits readResult.splits
      dest: stdout_Read_decreases [OF sym])

text \<open>The inner loop of \<^verbatim>\<open>NextFrame\<close>: \<open>fr\<close> is the local slice \<^verbatim>\<open>frame\<close>, read in chunks
  of 4096 bytes until the end marker appears in it. What follows the marker in the slice
  is not returned and not stored.\<close>

function readFrameBody :: "bytes \<Rightarrow> readCloser \<Rightarrow> (error + bytes) \<times> readCloser" where
  "readFrameBody fr r =
     (case stdout_Read 4096 r of
        (ReadData b t, r') \<Rightarrow>
          (let fr' = fr @ (b # t) in
           case bytes_Index fr' [0xFF, 0xD9] of
             Some idx \<Rightarrow> (Inr (take (idx + 2) fr'), r')
           | None \<Rightarrow> readFrameBody fr' r')
      | (ReadErr err, r') \<Rightarrow> (Inl (DecoderStreamClosed ''reading ffmpeg frame body'' err), r'))"
  by pat_completeness auto
termination
  by (relation "measure (\<lambda>(fr, r). pipe_size (chunks r))")
     (auto dest: stdout_Read_decreases)

text \<open>The outer loop of \<^verbatim>\<open>NextFrame\<close>: bytes are read one at a time until the start
  marker; a byte that follows \<open>0xFF\<close> and is not \<open>0xD8\<close> is consumed.\<close>

function scanFrame :: "readCloser \<Rightarrow> (error + bytes) \<times> readCloser" where
  "scanFrame r =
     (case readByte r of
        (Inl err, r1) \<Rightarrow> (Inl (DecoderStreamClosed ''reading from ffmpeg'' err), r1)
      | (Inr b, r1) \<Rightarrow>
          if b \<noteq> 0xFF then scanFrame r1
          else
            (case readByte r1 of
               (Inl err, r2) \<Rightarrow> (Inl err, r2)
             | (Inr b2, r2) \<Rightarrow>
                 if b2 \<noteq> 0xD8 then scanFrame r2
                 else readFrameBody [0xFF, 0xD8] r2))"
  by pat_completeness auto
termination
  by (relation "measure (\<lambda>r. pipe_size (chunks r))")
     (auto dest!: readByte_decreases)

text \<open>The fields \<^verbatim>\<open>Process\<close> of \<^verbatim>\<open>exec.Cmd\<close> (the process id once started) and the struct of
  the source. \<open>buf\<close> is declared by the source and used by none of its methods.\<close>

record cmd =
  args :: "string list"
  Process :: "nat option"

record videoSource =
  path :: string
  frameRate :: int
  cmd :: "cmd option"
  stdout :: "readCloser option"
  buf :: bytes

text \<open>\<^verbatim>\<open>fmt.Sprintf("%d", n)\<close>.\<close>

fun digits :: "nat \<Rightarrow> string" where
  "digits n =
     (if n < 10 then [''0123456789'' ! n]
      else digits (n div 10) @ [''0123456789'' ! (n mod 10)])"

definition itoa :: "int \<Rightarrow> string" where
  "itoa n = (if n < 0 then CHR ''-'' # digits (nat (- n)) else digits (nat n))"

definition spawn :: "'img env \<Rightarrow> videoSource \<Rightarrow> error option \<times> videoSource" where
  "spawn e s =
     (let a = [''ffmpeg'', ''-stream_loop'', ''-1'', ''-re'', ''-i'', path s,
               ''-vf'', ''fps='' @ itoa (frameRate s), ''-q:v'', ''3'',
               ''-f'', ''image2pipe'', ''-vcodec'', ''mjpeg'', ''-'']
      in if \<not> cmd_StdoutPipe e then (Some (SpawnFailure ''creating ffmpeg stdout pipe''), s)
         else case cmd_Start e a of
                None \<Rightarrow> (Some (SpawnFailure ''starting ffmpeg''), s)
              | Some (p, out) \<Rightarrow>
                  (None, s\<lparr>cmd := Some \<lparr>args = a, Process = Some p\<rparr>,
                            stdout := Some \<lparr>chunks = out, closed = False\<rparr>\<rparr>))"

definition newVideoSource :: "'img env \<Rightarrow> string \<Rightarrow> int \<Rightarrow> error + videoSource" where
  "newVideoSource e p rate =
     (if \<not> exec_LookPath e ''ffmpeg'' then Inl DecoderUnavailable
      else
        let s = \<lparr>path = p, frameRate = rate, cmd = None, stdout = None, buf = []\<rparr>
        in case spawn e s of
             (Some err, _) \<Rightarrow> Inl err
           | (None, s') \<Rightarrow> Inr s')"

definition videoSource_NextFrame :: "videoSource \<Rightarrow> (error + bytes) \<times> videoSource" where
  "videoSource_NextFrame s =
     (case stdout s of
        None \<Rightarrow> (Inl (Panic ''nil pointer dereference''), s)
      | Some r \<Rightarrow> (case scanFrame r of (res, r') \<Rightarrow> (res, s\<lparr>stdout := Some r'\<rparr>)))"

text \<open>
  \<^verbatim>\<open>Process.Kill\<close> belongs to the operating system: \<open>kill os p\<close> is its result on the
  process \<open>p\<close> in the state \<open>os\<close>, and the state after it. \<^verbatim>\<open>Close\<close> drops the result of
  closing the pipe and returns the result of the kill as it is.
\<close>

definition videoSource_Close ::
  "('os \<Rightarrow> nat \<Rightarrow> error option \<times> 'os) \<Rightarrow> 'os \<Rightarrow> videoSource \<Rightarrow> error option \<times> videoSource \<times> 'os" where
  "videoSource_Close kill os s =
     (let s1 = (case stdout s of
                  None \<Rightarrow> s
                | Some r \<Rightarrow> s\<lparr>stdout := Some (snd (stdout_Close r))\<rparr>)
      in case cmd s1 of
           None \<Rightarrow> (None, s1, os)
         | Some c \<Rightarrow>
             (case Process c of
                None \<Rightarrow> (None, s1, os)
              | Some p \<Rightarrow> (case kill os p of (res, os') \<Rightarrow> (res, s1, os'))))"

text \<open>An operating system on which a signal to a process that has finished is refused
  (\<^verbatim>\<open>os.ErrProcessDone\<close>, or the refusal of \<^verbatim>\<open>TerminateProcess\<close>).\<close>

datatype procStatus = Running | Finished

definition kill_refused_when_finished ::
  "(nat \<Rightarrow> procStatus) \<Rightarrow> nat \<Rightarrow> error option \<times> (nat \<Rightarrow> procStatus)" where
  "kill_refused_when_finished os p =
     (case os p of
        Running \<Rightarrow> (None, os(p := Finished))
      | Finished \<Rightarrow> (Some (OSError ''os: process already finished''), os))"


section \<open>The Source interface and Open\<close>

datatype Source = ImageSrc imageSource | GifSrc gifSource | VideoSrc videoSource

definition SupportedExtensions :: "string list" where
  "SupportedExtensions =
     [''.jpg'', ''.jpeg'', ''.png'', ''.webp'', ''.bmp'',
      ''.gif'',
      ''.mp4'', ''.mkv'', ''.mov'', ''.avi'',
      ''.webm'', ''.flv'', ''.ts'', ''.m4v'']"

text \<open>\<^verbatim>\<open>filepath.Ext\<close> walks back from the end of the path to the last separator and
  returns the suffix that starts at the first dot it meets. \<open>ext_scan\<close> is that loop on the
  reversed path, \<open>acc\<close> the suffix already passed. The separator is the one of Unix.\<close>

definition os_IsPathSeparator :: "char \<Rightarrow> bool" where
  "os_IsPathSeparator c \<longleftrightarrow> c = CHR ''/''"

fun ext_scan :: "string \<Rightarrow> string \<Rightarrow> string" where
  "ext_scan [] acc = []"
| "ext_scan (c # rest) acc =
     (if os_IsPathSeparator c then []
      else if c = CHR ''.'' then c # acc
      else ext_scan rest (c # acc))"

definition filepath_Ext :: "string \<Rightarrow> string" where
  "filepath_Ext p = ext_scan (rev p) []"

text \<open>\<^verbatim>\<open>strings.ToLower\<close> on the ASCII letters; every other byte is kept.\<close>

definition toLower :: "char \<Rightarrow> char" where
  "toLower c =
     (if (65::nat) \<le> of_char c \<and> of_char c \<le> (90::nat) then char_of (of_char c + (32::nat)) else c)"

definition strings_ToLower :: "string \<Rightarrow> string" where
  "strings_ToLower s = map toLower s"

fun strings_Join :: "string list \<Rightarrow> string \<Rightarrow> string" where
  "strings_Join [] sep = []"
| "strings_Join [x] sep = x"
| "strings_Join (x # y # ys) sep = x @ sep @ strings_Join (y # ys) sep"

text \<open>The methods of the interface, dispatched on the variant.\<close>

definition Source_Close ::
  "('os \<Rightarrow> nat \<Rightarrow> error option \<times> 'os) \<Rightarrow> 'os \<Rightarrow> Source \<Rightarrow> error option \<times> Source \<times> 'os" where
  "Source_Close kill os src =
     (case src of
        ImageSrc s \<Rightarrow> (case imageSource_Close s of (res, s') \<Rightarrow> (res, ImageSrc s', os))
      | GifSrc s \<Rightarrow> (case gifSource_Close s of (res, s') \<Rightarrow> (res, GifSrc s', os))
      | VideoSrc s \<Rightarrow> (case videoSource_Close kill os s of (res, s', os') \<Rightarrow> (res, VideoSrc s', os')))"

definition Open :: "'img env \<Rightarrow> string \<Rightarrow> int \<Rightarrow> error + Source" where
  "Open e p rate =
     (let ext = strings_ToLower (filepath_Ext p) in
      if ext \<in> set [''.jpg'', ''.jpeg'', ''.png'', ''.webp'', ''.bmp'']
      then map_sum id ImageSrc (newImageSource e p)
      else if ext = ''.gif''
      then map_sum id GifSrc (newGIFSource e p rate)
      else if ext \<in> set [''.mp4'', ''.mkv'', ''.mov'', ''.avi'', ''.webm'', ''.flv'', ''.ts'', ''.m4v'']
      then map_sum id VideoSrc (newVideoSource e p rate)
      else Inl (UnsupportedFormat ext (strings_Join SupportedExtensions '', '')))"

section \<open>Server\<close>

record Config =
  FilePath :: string
  Port :: int
  FrameRate :: int

text \<open>Of \<^verbatim>\<open>http.Server\<close> the address is kept. \<open>cancel\<close> tells whether the cancel function of
  the streaming context is set. The lock \<^verbatim>\<open>mu\<close> is held from the entry of a method to each
  of its unlocks and is not a field of the model.\<close>

record httpServer =
  Addr :: string

record Server =
  cfg :: Config
  source :: Source
  httpSrv :: "httpServer option"
  started :: bool
  cancel :: bool

text \<open>What a method does to the world outside the struct, in the order in which it does it.\<close>

datatype event = ContextCancelled | SourceClosed | ListenerShutdown | ListenAndServe

definition New :: "'img env \<Rightarrow> Config \<Rightarrow> error + Server" where
  "New e cfg0 =
     (let c = (if FrameRate cfg0 = 0 then cfg0\<lparr>FrameRate := 30\<rparr> else cfg0) in
      case Open e (FilePath c) (FrameRate c) of
        Inl err \<Rightarrow> Inl (OpeningMedia err)
      | Inr src \<Rightarrow> Inr \<lparr>cfg = c, source = src, httpSrv = None, started = False, cancel = False\<rparr>)"

text \<open>\<^verbatim>\<open>ListenAndServe\<close> always returns an error, \<open>listen h\<close>, once the listener is over.\<close>

definition Server_Start ::
  "(httpServer \<Rightarrow> error) \<Rightarrow> Server \<Rightarrow> error option \<times> Server \<times> event list" where
  "Server_Start listen s =
     (if started s then (Some AlreadyRunning, s, [])
      else
        let h = \<lparr>Addr = '':'' @ itoa (Port (cfg s))\<rparr>;
            s' = s\<lparr>started := True, cancel := True, httpSrv := Some h\<rparr>
        in (Some (listen h), s', [ListenAndServe]))"

text \<open>\<open>shutdown h\<close> is the result of \<^verbatim>\<open>Shutdown\<close> on the listener, with its grace period of
  three seconds.\<close>

definition Server_Stop ::
  "('os \<Rightarrow> nat \<Rightarrow> error option \<times> 'os) \<Rightarrow> (httpServer \<Rightarrow> error option) \<Rightarrow> 'os \<Rightarrow> Server
     \<Rightarrow> error option \<times> Server \<times> 'os \<times> event list" where
  "Server_Stop kill shutdown os s =
     (if \<not> started s then (None, s, os, [])
      else
        let s1 = s\<lparr>started := False\<rparr>;
            ev = (if cancel s1 then [ContextCancelled] else [])
        in case Source_Close kill os (source s1) of
             (cerr, src', os') \<Rightarrow>
               (let s2 = s1\<lparr>source := src'\<rparr>;
                    ev' = ev @ [SourceClosed]
                in case cerr of
                     Some err \<Rightarrow> (Some (ClosingMediaSource err), s2, os', ev')
                   | None \<Rightarrow>
                       (case httpSrv s1 of
                          None \<Rightarrow> (Some (Panic ''nil pointer dereference''), s2, os', ev')
                        | Some h \<Rightarrow> (shutdown h, s2, os', ev' @ [ListenerShutdown]))))"

text \<open>The first statement of \<^verbatim>\<open>handleStream\<close> after the headers: the tick interval.\<close>

definition handleStream_interval :: "'img env \<Rightarrow> Server \<Rightarrow> int" where
  "handleStream_interval e s = perFrame e (FrameRate (cfg s))"

section \<open>Concrete inputs\<close>

text \<open>An environment with an image file and a GIF of two frames (delays of 10 and of 0
  hundredths of a second), images that are numbers and an encoder that wraps the number
  between the two JPEG markers; no other file exists; the decoder resolves and starts as
  process 4242 with no output.\<close>

definition example_env :: "nat env" where
  "example_env =
     \<lparr>os_Open = (\<lambda>p. if p = ''a.gif'' \<or> p = ''a.JPG'' then Some [0x47] else None),
      image_Decode = (\<lambda>_. Some 7),
      gif_DecodeAll = (\<lambda>_. Some \<lparr>gif_Image = [1, 2], gif_Delay = [10, 0]\<rparr>),
      jpeg_Encode = (\<lambda>img q. Some [0xFF, 0xD8, of_nat img, 0xFF, 0xD9]),
      time_Now = 0,
      perFrame = (\<lambda>r. 1000000000 div r),
      exec_LookPath = (\<lambda>_. True),
      cmd_StdoutPipe = True,
      cmd_Start = (\<lambda>_. Some (4242, []))\<rparr>"

definition example_image :: imageSource where
  "example_image = \<lparr>frame = [0xFF, 0xD8, 7, 0xFF, 0xD9]\<rparr>"

definition example_gif :: gifSource where
  "example_gif =
     \<lparr>frames = [\<lparr>data = [0xFF, 0xD8, 1, 0xFF, 0xD9], delay = 100000000\<rparr>,
                \<lparr>data = [0xFF, 0xD8, 2, 0xFF, 0xD9], delay = 33333333\<rparr>],
      index = 0, lastAt = 0\<rparr>"

text \<open>Three small JPEG images, a video source of process 4242 whose pipe holds the given
  chunks, two states of the operating system, and a session on that source before and
  after \<^verbatim>\<open>Start\<close>.\<close>

definition jpeg1 :: bytes where "jpeg1 = [0xFF, 0xD8, 1, 0xFF, 0xD9]"
definition jpeg2 :: bytes where "jpeg2 = [0xFF, 0xD8, 2, 0xFF, 0xD9]"
definition jpeg3 :: bytes where "jpeg3 = [0xFF, 0xD8, 3, 0xFF, 0xD9]"

definition example_video :: "bytes list \<Rightarrow> videoSource" where
  "example_video out =
     \<lparr>path = ''/nonexistent/clip.mp4'', frameRate = 30,
      cmd = Some \<lparr>args = [''ffmpeg'', ''-stream_loop'', ''-1'', ''-re'', ''-i'',
                           ''/nonexistent/clip.mp4'', ''-vf'', ''fps=30'', ''-q:v'', ''3'',
                           ''-f'', ''image2pipe'', ''-vcodec'', ''mjpeg'', ''-''],
                  Process = Some 4242\<rparr>,
      stdout = Some \<lparr>chunks = out, closed = False\<rparr>, buf = []\<rparr>"

definition os_all_running :: "nat \<Rightarrow> procStatus" where
  "os_all_running p = Running"

definition os_all_finished :: "nat \<Rightarrow> procStatus" where
  "os_all_finished p = Finished"

definition shutdown_ok :: "httpServer \<Rightarrow> error option" where
  "shutdown_ok h = None"

definition listen_closed :: "httpServer \<Rightarrow> error" where
  "listen_closed h = OSError ''http: Server closed''"

definition example_config :: Config where
  "example_config = \<lparr>FilePath = ''/nonexistent/clip.mp4'', Port = 8080, FrameRate = 0\<rparr>"

definition example_idle_server :: Server where
  "example_idle_server =
     \<lparr>cfg = example_config\<lparr>FrameRate := 30\<rparr>, source = VideoSrc (example_video []),
      httpSrv = None, started = False, cancel = False\<rparr>"

definition example_running_server :: Server where
  "example_running_server =
     example_idle_server\<lparr>started := True, cancel := True, httpSrv := Some \<lparr>Addr = '':8080''\<rparr>\<rparr>"

definition example_gif_config :: Config where
  "example_gif_config = \<lparr>FilePath = ''a.gif'', Port = 8080, FrameRate = 0\<rparr>"


section \<open>Properties of imageSource and gifSource\<close>

lemma encodeFrames_length:
  "encodeFrames enc fb dl i imgs acc = Inr fs \<Longrightarrow> length fs = length acc + length imgs"
proof (induction imgs arbitrary: i acc)
  case Nil
  then show ?case by simp
next
  case (Cons img rest)
  then show ?case
    by (auto simp: Let_def split: option.splits if_splits)
qed

lemma newGIFSource_inv:
  assumes "newGIFSource e p rate = Inr s"
  shows "gif_inv s"
  using assms
  by (auto simp: newGIFSource_def gif_inv_def Suc_le_eq
      split: option.splits if_splits sum.splits dest!: encodeFrames_length)

lemma go_rem_succ:
  assumes "0 \<le> i" "i < n"
  shows "go_rem (i + 1) n = (i + 1) mod n" "0 \<le> go_rem (i + 1) n" "go_rem (i + 1) n < n"
proof -
  from assms have "sgn (i + 1) = 1" "\<bar>i + 1\<bar> = i + 1" "\<bar>n\<bar> = n" by simp_all
  then show eq: "go_rem (i + 1) n = (i + 1) mod n" by (simp add: go_rem_def)
  from assms have "0 < n" by simp
  then show "0 \<le> go_rem (i + 1) n" "go_rem (i + 1) n < n" unfolding eq by simp_all
qed

lemma gifSource_NextFrame_inv:
  assumes "gif_inv s"
  shows "gif_inv (snd (gifSource_NextFrame now1 now2 s))"
  using assms go_rem_succ(2,3) [of "index s" "int (length (frames s))"]
  by (simp add: gifSource_NextFrame_def gif_inv_def Let_def)

lemma imageSource_calls_id: "imageSource_calls n s = s"
  by (induction n) (simp_all add: imageSource_NextFrame_def)

lemma gifSource_run_inv: "gif_inv s \<Longrightarrow> gif_inv (gifSource_run cs s)"
  by (induction cs s rule: gifSource_run.induct)
     (simp_all add: gifSource_NextFrame_inv gifSource_Close_def)

lemma gifSource_run_frames: "frames (gifSource_run cs s) = frames s"
  by (induction cs s rule: gifSource_run.induct)
     (simp_all add: gifSource_NextFrame_def gifSource_Close_def Let_def)

lemma gifSource_NextFrame_step:
  assumes "gif_inv s"
  shows "gifSource_NextFrame now1 now2 s =
      (Inr (data (frames s ! nat (index s))),
       if delay (frames s ! nat (index s)) \<le> time_Since now1 (lastAt s)
       then s\<lparr>index := (index s + 1) mod int (length (frames s)), lastAt := now2\<rparr>
       else s)"
  using assms go_rem_succ(1) [of "index s" "int (length (frames s))"]
  by (simp add: gifSource_NextFrame_def gif_inv_def Let_def)

lemma example_gif_constructed: "newGIFSource example_env ''a.gif'' 30 = Inr example_gif"
  by (simp add: newGIFSource_def example_env_def example_gif_def wrap64_def)

lemma example_image_constructed: "newImageSource example_env ''a.JPG'' = Inr example_image"
  by (simp add: newImageSource_def example_env_def example_image_def)

lemma newImageSource_frame:
  assumes "newImageSource e p = Inr s"
  shows "\<exists>f img. os_Open e p = Some f \<and> image_Decode e f = Some img
           \<and> jpeg_Encode e img 92 = Some (frame s)"
  using assms by (auto simp: newImageSource_def split: option.splits)

text \<open>
  C1, as stated: when the delay of the current frame has elapsed, \<^verbatim>\<open>NextFrame\<close> moves the
  index by one modulo the frame count, stores the clock reading and returns the bytes of
  the frame the index has moved to. On the two-frame source, called 100 ms after the
  first frame began, the index moves from 0 to 1 and the clock reading is stored, and the
  bytes returned are those of frame 0, not those of frame 1.
\<close>

theorem gifSource_NextFrame_returns_advanced_counterexample:
  "delay (frames example_gif ! nat (index example_gif)) \<le> time_Since 100000000 (lastAt example_gif)
   \<and> index (snd (gifSource_NextFrame 100000000 100000001 example_gif)) = 1
   \<and> lastAt (snd (gifSource_NextFrame 100000000 100000001 example_gif)) = 100000001
   \<and> fst (gifSource_NextFrame 100000000 100000001 example_gif) = Inr (data (frames example_gif ! 0))
   \<and> fst (gifSource_NextFrame 100000000 100000001 example_gif) \<noteq> Inr (data (frames example_gif ! 1))"
  by (simp add: gifSource_NextFrame_def example_gif_def time_Since_def minDuration_def
      maxDuration_def go_rem_def)

text \<open>
  C1, amended: on a source that satisfies the invariant, \<^verbatim>\<open>NextFrame\<close> returns no error and
  the bytes of the frame that is current when the call begins. If the time elapsed since
  \<open>lastAt\<close> is at least the delay of that frame, the index moves by one modulo the frame
  count and \<open>lastAt\<close> becomes the new clock reading, so that the frame moved to is returned
  by the next call; otherwise the state is unchanged.
\<close>

theorem gifSource_NextFrame_returns_entry_frame:
  assumes "gif_inv s"
  shows "fst (gifSource_NextFrame now1 now2 s) = Inr (data (frames s ! nat (index s)))
    \<and> snd (gifSource_NextFrame now1 now2 s) =
        (if delay (frames s ! nat (index s)) \<le> time_Since now1 (lastAt s)
         then s\<lparr>index := (index s + 1) mod int (length (frames s)), lastAt := now2\<rparr>
         else s)"
  by (simp add: gifSource_NextFrame_step [OF assms])

theorem gifSource_NextFrame_returns_entry_frame_witness:
  "gif_inv example_gif
   \<and> gifSource_NextFrame 100000000 100000001 example_gif =
       (Inr [0xFF, 0xD8, 1, 0xFF, 0xD9], example_gif\<lparr>index := 1, lastAt := 100000001\<rparr>)
   \<and> gifSource_NextFrame 100000002 100000003 (example_gif\<lparr>index := 1, lastAt := 100000001\<rparr>) =
       (Inr [0xFF, 0xD8, 2, 0xFF, 0xD9], example_gif\<lparr>index := 1, lastAt := 100000001\<rparr>)"
proof -
  have i: "gif_inv example_gif" "gif_inv (example_gif\<lparr>index := 1, lastAt := 100000001\<rparr>)"
    by (simp_all add: gif_inv_def example_gif_def)
  have a: "gifSource_NextFrame 100000000 100000001 example_gif =
       (Inr [0xFF, 0xD8, 1, 0xFF, 0xD9], example_gif\<lparr>index := 1, lastAt := 100000001\<rparr>)"
    using gifSource_NextFrame_returns_entry_frame [OF i(1), of 100000000 100000001]
    by (simp add: prod_eq_iff example_gif_def time_Since_def minDuration_def maxDuration_def)
  have b: "gifSource_NextFrame 100000002 100000003 (example_gif\<lparr>index := 1, lastAt := 100000001\<rparr>) =
       (Inr [0xFF, 0xD8, 2, 0xFF, 0xD9], example_gif\<lparr>index := 1, lastAt := 100000001\<rparr>)"
    using gifSource_NextFrame_returns_entry_frame [OF i(2), of 100000002 100000003]
    by (simp add: prod_eq_iff example_gif_def time_Since_def minDuration_def maxDuration_def)
  from i(1) a b show ?thesis by simp
qed

text \<open>
  C7: a source that \<^verbatim>\<open>newGIFSource\<close> returns has at least one frame, as many as the decoder
  gave images (so construction fails when there is none), and starts at index 0. After
  any run of calls the index is within \<open>0 \<le> index < frameCount\<close>, and one more \<^verbatim>\<open>NextFrame\<close>,
  whatever the clock readings, keeps the frames and leaves the index where it is or moves
  it by one position modulo the frame count.
\<close>

theorem gifSource_index_invariant:
  assumes "newGIFSource e p rate = Inr s0"
  shows "1 \<le> length (frames s0) \<and> index s0 = 0
    \<and> (\<exists>f g. os_Open e p = Some f \<and> gif_DecodeAll e f = Some g
          \<and> length (frames s0) = length (gif_Image g))
    \<and> (\<forall>cs now1 now2.
          0 \<le> index (gifSource_run cs s0)
          \<and> index (gifSource_run cs s0) < int (length (frames s0))
          \<and> frames (snd (gifSource_NextFrame now1 now2 (gifSource_run cs s0))) = frames s0
          \<and> (index (snd (gifSource_NextFrame now1 now2 (gifSource_run cs s0))) = index (gifSource_run cs s0)
             \<or> index (snd (gifSource_NextFrame now1 now2 (gifSource_run cs s0)))
                 = (index (gifSource_run cs s0) + 1) mod int (length (frames s0))))"
proof -
  from assms have inv0: "gif_inv s0" by (rule newGIFSource_inv)
  have c1: "1 \<le> length (frames s0)" using inv0 by (simp add: gif_inv_def)
  have c2: "index s0 = 0"
    using assms by (auto simp: newGIFSource_def split: option.splits if_splits sum.splits)
  have c3: "\<exists>f g. os_Open e p = Some f \<and> gif_DecodeAll e f = Some g
          \<and> length (frames s0) = length (gif_Image g)"
    using assms
    by (auto simp: newGIFSource_def split: option.splits if_splits sum.splits
        dest!: encodeFrames_length)
  have c4: "0 \<le> index (gifSource_run cs s0)
          \<and> index (gifSource_run cs s0) < int (length (frames s0))
          \<and> frames (snd (gifSource_NextFrame now1 now2 (gifSource_run cs s0))) = frames s0
          \<and> (index (snd (gifSource_NextFrame now1 now2 (gifSource_run cs s0))) = index (gifSource_run cs s0)
             \<or> index (snd (gifSource_NextFrame now1 now2 (gifSource_run cs s0)))
                 = (index (gifSource_run cs s0) + 1) mod int (length (frames s0)))"
    for cs now1 now2
  proof -
    let ?s = "gifSource_run cs s0"
    have inv: "gif_inv ?s" using inv0 by (rule gifSource_run_inv)
    have fr: "frames ?s = frames s0" by (rule gifSource_run_frames)
    from inv fr show ?thesis
      by (simp add: gifSource_NextFrame_step [OF inv] gif_inv_def)
  qed
  from c1 c2 c3 c4 show ?thesis by blast
qed

theorem gifSource_index_invariant_witness:
  "newGIFSource example_env ''a.gif'' 30 = Inr example_gif
   \<and> 1 \<le> length (frames example_gif)
   \<and> index (gifSource_run [NextFrameAt 100000000 100000001] example_gif) = 1
   \<and> index (snd (gifSource_NextFrame 900000000 900000001
        (gifSource_run [NextFrameAt 100000000 100000001] example_gif))) = 0"
proof -
  note c = gifSource_index_invariant [OF example_gif_constructed]
  have r: "gifSource_run [NextFrameAt 100000000 100000001] example_gif
      = example_gif\<lparr>index := 1, lastAt := 100000001\<rparr>"
    by (simp add: gifSource_NextFrame_def example_gif_def time_Since_def minDuration_def
        maxDuration_def go_rem_def)
  have n: "index (snd (gifSource_NextFrame 900000000 900000001
        (example_gif\<lparr>index := 1, lastAt := 100000001\<rparr>))) = 0"
    by (simp add: gifSource_NextFrame_def example_gif_def time_Since_def minDuration_def
        maxDuration_def go_rem_def)
  from c r n show ?thesis by (simp add: example_gif_constructed)
qed

text \<open>
  C8: whatever the number of earlier calls, \<^verbatim>\<open>NextFrame\<close> on an \<^verbatim>\<open>imageSource\<close> returns the
  bytes of its field \<open>frame\<close> and leaves the source as it was; after construction these
  bytes are the JPEG encoding, at quality 92, of the decoded file.
\<close>

theorem imageSource_NextFrame_constant:
  "imageSource_NextFrame (imageSource_calls n s) = (Inr (frame s), s)
   \<and> (newImageSource e p = Inr s \<longrightarrow>
        (\<exists>f img. os_Open e p = Some f \<and> image_Decode e f = Some img
           \<and> jpeg_Encode e img 92 = Some (frame s)))"
  using newImageSource_frame [of e p s]
  by (simp add: imageSource_calls_id imageSource_NextFrame_def)

theorem imageSource_NextFrame_constant_witness:
  "newImageSource example_env ''a.JPG'' = Inr example_image
   \<and> imageSource_NextFrame (imageSource_calls 3 example_image)
       = (Inr [0xFF, 0xD8, 7, 0xFF, 0xD9], example_image)
   \<and> jpeg_Encode example_env 7 92 = Some [0xFF, 0xD8, 7, 0xFF, 0xD9]"
  using imageSource_NextFrame_constant [of 3 example_image example_env "''a.JPG''"]
  by (simp add: example_image_constructed) (simp add: example_image_def example_env_def)

text \<open>
  C10: \<^verbatim>\<open>NextFrame\<close> and \<^verbatim>\<open>Close\<close> of an \<^verbatim>\<open>imageSource\<close> return no error and leave the source
  unchanged; on a \<^verbatim>\<open>gifSource\<close> that \<^verbatim>\<open>newGIFSource\<close> returned, after any run of calls,
  \<^verbatim>\<open>NextFrame\<close> returns bytes and no error (the index is in range, so it does not panic
  either) and \<^verbatim>\<open>Close\<close> returns no error.
\<close>

theorem image_gif_never_error:
  "fst (imageSource_NextFrame s) = Inr (frame s)
   \<and> fst (imageSource_Close s) = None
   \<and> snd (imageSource_NextFrame s) = s \<and> snd (imageSource_Close s) = s
   \<and> (newGIFSource e p rate = Inr g \<longrightarrow>
        (\<forall>cs now1 now2.
           (\<exists>b. fst (gifSource_NextFrame now1 now2 (gifSource_run cs g)) = Inr b)
           \<and> fst (gifSource_Close (gifSource_run cs g)) = None))"
proof -
  have "\<exists>b. fst (gifSource_NextFrame now1 now2 (gifSource_run cs g)) = Inr b"
    if "newGIFSource e p rate = Inr g" for cs now1 now2
  proof -
    from that have "gif_inv (gifSource_run cs g)"
      by (intro gifSource_run_inv newGIFSource_inv)
    then show ?thesis by (simp add: gifSource_NextFrame_step)
  qed
  then show ?thesis
    by (simp add: imageSource_NextFrame_def imageSource_Close_def gifSource_Close_def)
qed

theorem image_gif_never_error_witness:
  "newGIFSource example_env ''a.gif'' 30 = Inr example_gif
   \<and> fst (imageSource_NextFrame example_image) = Inr [0xFF, 0xD8, 7, 0xFF, 0xD9]
   \<and> fst (imageSource_Close example_image) = None
   \<and> (\<exists>b. fst (gifSource_NextFrame 5 6 (gifSource_run [NextFrameAt 100000000 100000001, CloseCall] example_gif)) = Inr b)
   \<and> fst (gifSource_Close (gifSource_run [NextFrameAt 100000000 100000001, CloseCall] example_gif)) = None"
proof -
  note t = image_gif_never_error [of example_image example_env "''a.gif''" 30 example_gif]
  from t have i: "fst (imageSource_NextFrame example_image) = Inr [0xFF, 0xD8, 7, 0xFF, 0xD9]"
    "fst (imageSource_Close example_image) = None"
    by (simp_all add: example_image_def)
  from t example_gif_constructed have g: "\<forall>cs now1 now2.
      (\<exists>b. fst (gifSource_NextFrame now1 now2 (gifSource_run cs example_gif)) = Inr b)
      \<and> fst (gifSource_Close (gifSource_run cs example_gif)) = None"
    by blast
  from g have "(\<exists>b. fst (gifSource_NextFrame 5 6 (gifSource_run [NextFrameAt 100000000 100000001, CloseCall] example_gif)) = Inr b)
      \<and> fst (gifSource_Close (gifSource_run [NextFrameAt 100000000 100000001, CloseCall] example_gif)) = None"
    by blast
  with i example_gif_constructed show ?thesis by blast
qed

section \<open>Properties of videoSource\<close>

lemma example_video_constructed:
  "newVideoSource example_env ''/nonexistent/clip.mp4'' 30 = Inr (example_video [])"
  by (simp add: newVideoSource_def spawn_def example_env_def example_video_def itoa_def)


text \<open>
  C2 on the code: the decoder has written two images back to back and both are in the pipe
  when the body of the first is read. The first call returns the first image exactly; the
  bytes of the second image, read in the same chunk, are in neither the pipe nor \<open>buf\<close>
  afterwards, so the second call reports the end of the stream, or, when a third image
  follows, returns the third image. The claim asks for the second image there.
\<close>

theorem videoSource_NextFrame_drops_lookahead:
  "fst (videoSource_NextFrame (example_video [jpeg1 @ jpeg2])) = Inr jpeg1
   \<and> snd (videoSource_NextFrame (example_video [jpeg1 @ jpeg2])) = example_video []
   \<and> fst (videoSource_NextFrame (example_video [])) = Inl (DecoderStreamClosed ''reading from ffmpeg'' EOF)
   \<and> fst (videoSource_NextFrame (example_video [jpeg1 @ jpeg2, jpeg3])) = Inr jpeg1
   \<and> snd (videoSource_NextFrame (example_video [jpeg1 @ jpeg2, jpeg3])) = example_video [jpeg3]
   \<and> fst (videoSource_NextFrame (example_video [jpeg3])) = Inr jpeg3"
  by (simp add: videoSource_NextFrame_def example_video_def jpeg1_def jpeg2_def jpeg3_def
      readByte_def stdout_Read_def)




section \<open>Properties of Server\<close>

lemma example_video_opened:
  "Open example_env ''/nonexistent/clip.mp4'' 30 = Inr (VideoSrc (example_video []))"
  by (simp add: Open_def filepath_Ext_def strings_ToLower_def toLower_def os_IsPathSeparator_def
      example_video_constructed)

lemma example_idle_server_constructed: "New example_env example_config = Inr example_idle_server"
  by (simp add: New_def example_config_def example_idle_server_def example_video_opened)

lemma example_running_server_started:
  "Server_Start listen example_idle_server
     = (Some (listen \<lparr>Addr = '':8080''\<rparr>), example_running_server, [ListenAndServe])"
  by (simp add: Server_Start_def example_idle_server_def example_running_server_def
      example_config_def itoa_def Let_def)

lemma Open_gif:
  assumes "strings_ToLower (filepath_Ext p) = ''.gif''"
  shows "Open e p rate = map_sum id GifSrc (newGIFSource e p rate)"
  using assms by (simp add: Open_def)

lemma a_gif_ext: "strings_ToLower (filepath_Ext ''a.gif'') = ''.gif''"
  by (simp add: filepath_Ext_def strings_ToLower_def toLower_def os_IsPathSeparator_def)

text \<open>
  C3 on the code: a running session whose source is a video source with a decoder that
  has already exited, on an operating system that refuses the kill. \<^verbatim>\<open>Stop\<close> marks the
  session not running, cancels the context, closes the source and returns the error of
  the close wrapped; the shutdown of the listener is not among the things it did. The
  claim asks for the shutdown to be attempted there.
\<close>

theorem Server_Stop_skips_shutdown_on_close_error:
  "started example_running_server
   \<and> Server_Stop kill_refused_when_finished shutdown_ok os_all_finished example_running_server
     = (Some (ClosingMediaSource (OSError ''os: process already finished'')),
        example_running_server
          \<lparr>started := False,
           source := VideoSrc ((example_video [])\<lparr>stdout := Some \<lparr>chunks = [], closed = True\<rparr>\<rparr>)\<rparr>,
        os_all_finished,
        [ContextCancelled, SourceClosed])"
  by (simp add: Server_Stop_def Source_Close_def videoSource_Close_def stdout_Close_def
      kill_refused_when_finished_def os_all_finished_def example_running_server_def
      example_idle_server_def example_video_def)

text \<open>
  C6: \<^verbatim>\<open>Start\<close> on a running session returns \<open>AlreadyRunning\<close>, does nothing to the outside and
  leaves the session as it is; \<^verbatim>\<open>Stop\<close> on a session that is not running returns no error,
  does nothing to the outside (no cancellation, no close of the source, no shutdown of
  the listener) and leaves the session and the operating system as they are.
\<close>

theorem Server_Start_Stop_guards:
  "(started s \<longrightarrow> Server_Start listen s = (Some AlreadyRunning, s, []))
   \<and> (\<not> started t \<longrightarrow> Server_Stop kill shutdown os t = (None, t, os, []))"
  by (simp add: Server_Start_def Server_Stop_def)

theorem Server_Start_Stop_guards_witness:
  "started example_running_server
   \<and> Server_Start listen_closed example_running_server = (Some AlreadyRunning, example_running_server, [])
   \<and> \<not> started example_idle_server
   \<and> Server_Stop kill_refused_when_finished shutdown_ok os_all_running example_idle_server
       = (None, example_idle_server, os_all_running, [])"
  using Server_Start_Stop_guards [of example_running_server listen_closed example_idle_server
      kill_refused_when_finished shutdown_ok os_all_running]
  by (simp add: example_running_server_def example_idle_server_def)

text \<open>
  C9: when \<^verbatim>\<open>Config.FrameRate\<close> is zero, \<^verbatim>\<open>New\<close> opens the media with the frame rate 30 and
  stores 30 in the configuration of the session, so the tick interval of \<^verbatim>\<open>handleStream\<close>
  is computed from 30, and a GIF source is the one \<^verbatim>\<open>newGIFSource\<close> builds with the rate 30,
  which is the rate of its fallback delay. No session that \<^verbatim>\<open>New\<close> returns has the frame
  rate zero.
\<close>

theorem New_defaults_frame_rate:
  assumes "FrameRate c = 0"
  shows "New e c =
      (case Open e (FilePath c) 30 of
         Inl err \<Rightarrow> Inl (OpeningMedia err)
       | Inr src \<Rightarrow> Inr \<lparr>cfg = c\<lparr>FrameRate := 30\<rparr>, source = src, httpSrv = None,
                         started = False, cancel = False\<rparr>)
    \<and> (\<forall>srv. New e c = Inr srv \<longrightarrow>
          FrameRate (cfg srv) = 30 \<and> handleStream_interval e srv = perFrame e 30)
    \<and> (strings_ToLower (filepath_Ext (FilePath c)) = ''.gif'' \<longrightarrow>
          (\<forall>srv. New e c = Inr srv \<longrightarrow>
             (\<exists>g. source srv = GifSrc g \<and> newGIFSource e (FilePath c) 30 = Inr g)))
    \<and> (New e2 c2 = Inr srv2 \<longrightarrow> FrameRate (cfg srv2) \<noteq> 0)"
proof -
  have a: "New e c =
      (case Open e (FilePath c) 30 of
         Inl err \<Rightarrow> Inl (OpeningMedia err)
       | Inr src \<Rightarrow> Inr \<lparr>cfg = c\<lparr>FrameRate := 30\<rparr>, source = src, httpSrv = None,
                         started = False, cancel = False\<rparr>)"
    using assms by (simp add: New_def)
  have b: "FrameRate (cfg srv) = 30 \<and> handleStream_interval e srv = perFrame e 30"
    if "New e c = Inr srv" for srv
    using that unfolding a by (auto simp: handleStream_interval_def split: sum.splits)
  have g: "\<exists>g. source srv = GifSrc g \<and> newGIFSource e (FilePath c) 30 = Inr g"
    if "strings_ToLower (filepath_Ext (FilePath c)) = ''.gif''" "New e c = Inr srv" for srv
    using that(2) unfolding a Open_gif [OF that(1)]
    by (cases "newGIFSource e (FilePath c) 30") auto
  have d: "FrameRate (cfg srv2) \<noteq> 0" if "New e2 c2 = Inr srv2"
    using that by (auto simp: New_def Let_def split: sum.splits if_splits)
  from a b g d show ?thesis by blast
qed

theorem New_defaults_frame_rate_witness:
  "FrameRate example_gif_config = 0
   \<and> strings_ToLower (filepath_Ext (FilePath example_gif_config)) = ''.gif''
   \<and> New example_env example_gif_config =
        Inr \<lparr>cfg = example_gif_config\<lparr>FrameRate := 30\<rparr>, source = GifSrc example_gif,
             httpSrv = None, started = False, cancel = False\<rparr>
   \<and> handleStream_interval example_env
        \<lparr>cfg = example_gif_config\<lparr>FrameRate := 30\<rparr>, source = GifSrc example_gif,
         httpSrv = None, started = False, cancel = False\<rparr> = 33333333
   \<and> delay (frames example_gif ! 1) = 33333333
   \<and> New example_env example_config = Inr example_idle_server
   \<and> FrameRate (cfg example_idle_server) \<noteq> 0"
proof -
  have z: "FrameRate example_gif_config = 0" by (simp add: example_gif_config_def)
  have x: "strings_ToLower (filepath_Ext (FilePath example_gif_config)) = ''.gif''"
    by (simp add: example_gif_config_def a_gif_ext)
  have o: "Open example_env ''a.gif'' 30 = Inr (GifSrc example_gif)"
    by (simp add: Open_gif [OF a_gif_ext] example_gif_constructed)
  note t = New_defaults_frame_rate [OF z, of example_env example_env example_config
      example_idle_server]
  from t have n: "New example_env example_gif_config =
        Inr \<lparr>cfg = example_gif_config\<lparr>FrameRate := 30\<rparr>, source = GifSrc example_gif,
             httpSrv = None, started = False, cancel = False\<rparr>"
    by (simp add: o) (simp add: example_gif_config_def o)
  from t n have i: "handleStream_interval example_env
        \<lparr>cfg = example_gif_config\<lparr>FrameRate := 30\<rparr>, source = GifSrc example_gif,
         httpSrv = None, started = False, cancel = False\<rparr> = perFrame example_env 30"
    by blast
  have p: "perFrame example_env 30 = 33333333" by (simp add: example_env_def)
  have d: "delay (frames example_gif ! 1) = 33333333" by (simp add: example_gif_def)
  from t example_idle_server_constructed have f: "FrameRate (cfg example_idle_server) \<noteq> 0"
    by blast
  from z x n i p d f example_idle_server_constructed show ?thesis by simp
qed

section \<open>Properties of Open\<close>



















end
